theory Spec2Isabelle
  imports Main "HOL-Library.Multiset" "HOL-Library.Char_ord" "HOL-Library.List_Lexorder"
begin

section \<open>Values: decoded JSON and Python exceptions\<close>

text \<open>
  The scraper (\<^verbatim>\<open>scraper/scrape_and_push.py\<close>) handles the values that \<^verbatim>\<open>json.loads\<close>
  returns: \<^verbatim>\<open>None\<close>, \<^verbatim>\<open>bool\<close>, \<^verbatim>\<open>int\<close>, \<^verbatim>\<open>str\<close>, \<^verbatim>\<open>list\<close> and \<^verbatim>\<open>dict\<close>.
  A \<^verbatim>\<open>dict\<close> is an association list in insertion order; \<^verbatim>\<open>json.loads\<close> and a dict
  literal never produce a key twice, and a lookup takes the first binding. Strings are
  their UTF-8 bytes, whose lexicographic order is the order of the code points that
  Python compares. Python \<^verbatim>\<open>float\<close> (a JSON number with a fraction or an exponent) is
  not part of the model.
\<close>

datatype json =
    JNull
  | JBool bool
  | JInt int
  | JStr string
  | JArr "json list"
  | JObj "(string \<times> json) list"

text \<open>
  The exception classes that the calls of the module can raise. All of them derive from
  \<^verbatim>\<open>Exception\<close>. \<open>OSError\<close>, \<open>RequestException\<close> and \<open>OtherException\<close> stand for any
  further instance of that class which is not one of the subclasses listed before it;
  \<open>RequestsJSONDecodeError\<close> is \<^verbatim>\<open>requests.exceptions.JSONDecodeError\<close>, a subclass of
  \<^verbatim>\<open>RequestException\<close>.
\<close>

datatype py_exception =
    FileNotFoundError
  | OSError
  | UnicodeDecodeError
  | JSONDecodeError
  | RecursionError
  | AttributeError
  | TypeError
  | KeyError
  | HTTPError
  | Timeout
  | ConnectionError
  | RequestsJSONDecodeError
  | RequestException
  | OtherException

definition isinstance_FileNotFoundError :: "py_exception \<Rightarrow> bool" where
  "isinstance_FileNotFoundError e = (e = FileNotFoundError)"

definition isinstance_JSONDecodeError :: "py_exception \<Rightarrow> bool" where
  "isinstance_JSONDecodeError e = (e = JSONDecodeError)"

definition isinstance_RequestException :: "py_exception \<Rightarrow> bool" where
  "isinstance_RequestException e =
     (e = HTTPError \<or> e = Timeout \<or> e = ConnectionError
      \<or> e = RequestsJSONDecodeError \<or> e = RequestException)"

text \<open>Sequencing of two fallible computations: the first exception propagates.\<close>

definition and_then :: "py_exception + 'a \<Rightarrow> ('a \<Rightarrow> py_exception + 'b) \<Rightarrow> py_exception + 'b" where
  "and_then r f = (case r of Inl e \<Rightarrow> Inl e | Inr v \<Rightarrow> f v)"

text \<open>
  \<^verbatim>\<open>obj.get(key, default)\<close>: on a dict the bound value or the default; any other decoded
  value has no attribute \<^verbatim>\<open>get\<close>.
\<close>

definition dict_get :: "(string \<times> json) list \<Rightarrow> string \<Rightarrow> json \<Rightarrow> json" where
  "dict_get kvs k d = (case map_of kvs k of Some v \<Rightarrow> v | None \<Rightarrow> d)"

fun py_get :: "json \<Rightarrow> string \<Rightarrow> json \<Rightarrow> py_exception + json" where
  "py_get (JObj kvs) k d = Inr (dict_get kvs k d)"
| "py_get _ k d = Inl AttributeError"

text \<open>\<^verbatim>\<open>obj[key]\<close> on a dict raises \<^verbatim>\<open>KeyError\<close> for a missing key.\<close>

fun py_getitem :: "json \<Rightarrow> string \<Rightarrow> py_exception + json" where
  "py_getitem (JObj kvs) k = (case map_of kvs k of Some v \<Rightarrow> Inr v | None \<Rightarrow> Inl KeyError)"
| "py_getitem _ k = Inl TypeError"

subsection \<open>Comparison of decoded values\<close>

text \<open>
  Python's \<^verbatim>\<open>==\<close> on decoded values never raises: \<^verbatim>\<open>bool\<close> is a subclass of \<^verbatim>\<open>int\<close>
  (\<^verbatim>\<open>True == 1\<close>), lists are equal elementwise and dicts when they bind the same keys to
  equal values, whatever the order. So two values are equal exactly when they have the
  same normal form \<open>canon\<close>, in which \<^verbatim>\<open>True\<close> and \<^verbatim>\<open>False\<close> are 1 and 0 and the entries
  of a dict are in the order of their keys.
\<close>

fun num_of :: "json \<Rightarrow> int option" where
  "num_of (JInt i) = Some i"
| "num_of (JBool b) = Some (if b then 1 else 0)"
| "num_of _ = None"

primrec canon :: "json \<Rightarrow> json" where
  "canon JNull = JNull"
| "canon (JBool b) = JInt (if b then 1 else 0)"
| "canon (JInt i) = JInt i"
| "canon (JStr s) = JStr s"
| "canon (JArr xs) = JArr (map canon xs)"
| "canon (JObj kvs) = JObj (sort_key fst (map (map_prod id canon) kvs))"

definition py_eq :: "json \<Rightarrow> json \<Rightarrow> bool" where
  "py_eq a b = (canon a = canon b)"

text \<open>
  Python's \<^verbatim>\<open><\<close>: numbers (with \<^verbatim>\<open>bool\<close>) among themselves, strings among themselves,
  and lists lexicographically, where the first pair of elements that are not \<^verbatim>\<open>==\<close>
  decides and is itself compared with \<^verbatim>\<open><\<close>. Every other pair of operands raises
  \<^verbatim>\<open>TypeError\<close>, among them \<^verbatim>\<open>None < None\<close>, \<^verbatim>\<open>None < 'a'\<close> and any dict.
\<close>

fun py_lt :: "json \<Rightarrow> json \<Rightarrow> py_exception + bool"
  and py_lt_list :: "json list \<Rightarrow> json list \<Rightarrow> py_exception + bool" where
  "py_lt (JStr a) b = (case b of JStr c \<Rightarrow> Inr (a < c) | _ \<Rightarrow> Inl TypeError)"
| "py_lt (JInt i) b = (case num_of b of Some j \<Rightarrow> Inr (i < j) | None \<Rightarrow> Inl TypeError)"
| "py_lt (JBool x) b =
     (case num_of b of Some j \<Rightarrow> Inr ((if x then 1 else 0) < j) | None \<Rightarrow> Inl TypeError)"
| "py_lt (JArr xs) b = (case b of JArr ys \<Rightarrow> py_lt_list xs ys | _ \<Rightarrow> Inl TypeError)"
| "py_lt JNull b = Inl TypeError"
| "py_lt (JObj kvs) b = Inl TypeError"
| "py_lt_list [] ys = Inr (ys \<noteq> [])"
| "py_lt_list (x # xs) ys =
     (case ys of [] \<Rightarrow> Inr False
      | y # ys' \<Rightarrow> if py_eq x y then py_lt_list xs ys' else py_lt x y)"

section \<open>The environment of a run\<close>

text \<open>
  A child process as the scraper observes it: the lines that iterating over
  \<^verbatim>\<open>proc.stdout\<close> yields, an exception that the iteration may raise once these lines are
  consumed (a pipe opened with \<^verbatim>\<open>text=True\<close> decodes what it reads), the exit status and
  the text of the error stream. The output is a finite list: a process that never closes
  its output is not modelled.
\<close>

record process =
  stdout :: "string list"
  stdout_fault :: "py_exception option"
  returncode :: int
  stderr :: string

text \<open>
  The arguments of \<^verbatim>\<open>requests.post\<close>. The body is kept as the value handed to
  \<^verbatim>\<open>json.dumps\<close>; the serialisation to text is not modelled.
\<close>

record request =
  url :: string
  headers :: "(string \<times> string) list"
  data :: json
  timeout :: nat

text \<open>
  A response: its status code and what \<^verbatim>\<open>response.json()\<close> does, which either raises
  (the body is not JSON) or returns the decoded body.
\<close>

record response =
  status_code :: int
  json_body :: "py_exception + json"

text \<open>
  Everything outside the module: the environment variables, \<^verbatim>\<open>str.strip\<close> and
  \<^verbatim>\<open>json.loads\<close> of the standard library, \<^verbatim>\<open>subprocess.Popen\<close> (which raises or starts a
  process) and \<^verbatim>\<open>requests.post\<close> (which raises or returns a response).
\<close>

record world =
  environ :: "string \<rightharpoonup> string"
  strip :: "string \<Rightarrow> string"
  json_loads :: "string \<Rightarrow> py_exception + json"
  popen :: "string list \<Rightarrow> py_exception + process"
  requests_post :: "request \<Rightarrow> py_exception + response"

text \<open>
  What a run does to the outside, in order: the lines it prints (one constructor for each
  \<^verbatim>\<open>print\<close> of the module, with the values it interpolates), the processes it starts and
  the requests it sends. Printing never fails.
\<close>

datatype message =
    Scraping_tweets_from_list string
  | Error_processing_tweet py_exception
  | Snscrape_error string
  | Snscrape_not_found
  | Error_running_snscrape py_exception
  | Env_variables_must_be_set
  | Pushing_tweets nat string
  | Success_inserted json
  | Error_pushing_tweets py_exception
  | Unexpected_error py_exception
  | Starting_tweet_scraping
  | INGEST_URL_not_set
  | INGEST_TOKEN_not_set
  | No_tweets_scraped
  | Scraped_tweets nat
  | Completed_successfully
  | Tweet_ingestion_failed

datatype effect =
    Print message
  | Spawn "string list"
  | HttpPost request

section \<open>Configuration\<close>

definition LIST_SPEC :: "world \<Rightarrow> string" where
  "LIST_SPEC w = (case environ w ''TW_LIST'' of Some v \<Rightarrow> v | None \<Rightarrow> ''1981892452895117355'')"

definition INGEST_URL :: "world \<Rightarrow> string option" where
  "INGEST_URL w = environ w ''INGEST_URL''"

definition INGEST_TOKEN :: "world \<Rightarrow> string option" where
  "INGEST_TOKEN w = environ w ''INGEST_TOKEN''"

text \<open>\<^verbatim>\<open>not v\<close> for a value that is \<^verbatim>\<open>None\<close> or a string: true for \<^verbatim>\<open>None\<close> and for \<^verbatim>\<open>''\<close>.\<close>

fun py_not :: "string option \<Rightarrow> bool" where
  "py_not None = True"
| "py_not (Some s) = (s = [])"

section \<open>The collector\<close>

text \<open>
  The dict literal of lines 38 to 46: its entries are evaluated in order, and the first
  failing \<^verbatim>\<open>.get\<close> aborts the construction.
\<close>

definition make_tweet :: "json \<Rightarrow> py_exception + json" where
  "make_tweet tweet_data =
     and_then (py_get tweet_data ''id'' JNull) (\<lambda>v_id.
     and_then (py_get tweet_data ''date'' JNull) (\<lambda>v_date.
     and_then (py_get tweet_data ''content'' JNull) (\<lambda>v_content.
     and_then (py_get tweet_data ''url'' JNull) (\<lambda>v_url.
     and_then (and_then (py_get tweet_data ''user'' (JObj []))
                 (\<lambda>u. py_get u ''displayname'' JNull)) (\<lambda>v_name.
     and_then (and_then (py_get tweet_data ''user'' (JObj []))
                 (\<lambda>u. py_get u ''username'' JNull)) (\<lambda>v_handle.
     Inr (JObj [(''id'', v_id), (''date'', v_date), (''content'', v_content),
                (''url'', v_url), (''authorName'', v_name),
                (''authorHandle'', v_handle), (''raw'', tweet_data)])))))))"

text \<open>
  The loop of lines 35 to 51 over the lines of the output, with the list \<open>tweets\<close> and
  the effects so far. A \<^verbatim>\<open>JSONDecodeError\<close> skips the line silently, any other exception
  is printed and skips the line.
\<close>

fun read_lines :: "world \<Rightarrow> string list \<Rightarrow> json list \<Rightarrow> effect list \<Rightarrow> json list \<times> effect list" where
  "read_lines w [] tweets fx = (tweets, fx)"
| "read_lines w (line # rest) tweets fx =
     (case and_then (json_loads w (strip w line)) make_tweet of
        Inr tweet \<Rightarrow> read_lines w rest (tweets @ [tweet]) fx
      | Inl e \<Rightarrow>
          if isinstance_JSONDecodeError e then read_lines w rest tweets fx
          else read_lines w rest tweets (fx @ [Print (Error_processing_tweet e)]))"

text \<open>
  \<^verbatim>\<open>tweets.sort(key=lambda x: x["date"], reverse=True)\<close>. The keys are computed first, one
  for each element. The sort is stable, compares keys with \<^verbatim>\<open><\<close> only, and fails as a
  whole when a comparison raises; with \<^verbatim>\<open>reverse=True\<close> the result is descending and
  elements with equal keys keep their original order. It is written here as an insertion
  sort from the right, which compares every element but the last with at least one other.
  CPython sorts with another algorithm, which returns the same list whenever the keys are
  pairwise comparable, and which raises as well when a \<^verbatim>\<open>None\<close>, a dict, or keys of two
  different kinds are among two or more keys.
\<close>

fun insert_desc :: "json \<times> json \<Rightarrow> (json \<times> json) list \<Rightarrow> py_exception + (json \<times> json) list" where
  "insert_desc x [] = Inr [x]"
| "insert_desc x (y # ys) =
     (case py_lt (fst x) (fst y) of
        Inl e \<Rightarrow> Inl e
      | Inr True \<Rightarrow> (case insert_desc x ys of Inl e \<Rightarrow> Inl e | Inr zs \<Rightarrow> Inr (y # zs))
      | Inr False \<Rightarrow> Inr (x # y # ys))"

fun sort_desc :: "(json \<times> json) list \<Rightarrow> py_exception + (json \<times> json) list" where
  "sort_desc [] = Inr []"
| "sort_desc (x # xs) = (case sort_desc xs of Inl e \<Rightarrow> Inl e | Inr ys \<Rightarrow> insert_desc x ys)"

fun sort_keys :: "json list \<Rightarrow> py_exception + (json \<times> json) list" where
  "sort_keys [] = Inr []"
| "sort_keys (x # xs) =
     (case py_getitem x ''date'' of
        Inl e \<Rightarrow> Inl e
      | Inr k \<Rightarrow> (case sort_keys xs of Inl e \<Rightarrow> Inl e | Inr ks \<Rightarrow> Inr ((k, x) # ks)))"

definition sort_by_date_reverse :: "json list \<Rightarrow> py_exception + json list" where
  "sort_by_date_reverse tweets =
     (case and_then (sort_keys tweets) sort_desc of
        Inl e \<Rightarrow> Inl e
      | Inr kxs \<Rightarrow> Inr (map snd kxs))"

text \<open>
  The body of the \<^verbatim>\<open>try\<close> of \<open>run_snscrape\<close> (lines 27 to 63): it returns the list or
  raises, together with the effects.
\<close>

definition snscrape_cmd :: "world \<Rightarrow> string list" where
  "snscrape_cmd w = [''snscrape'', ''--jsonl'', ''twitter-list-posts'', LIST_SPEC w]"

definition run_snscrape_try :: "world \<Rightarrow> effect list \<Rightarrow> (py_exception + json list) \<times> effect list" where
  "run_snscrape_try w fx =
     (let cmd = snscrape_cmd w;
          fx1 = fx @ [Spawn cmd]
      in case popen w cmd of
           Inl e \<Rightarrow> (Inl e, fx1)
         | Inr proc \<Rightarrow>
             (let (tweets, fx2) = read_lines w (stdout proc) [] fx1
              in case stdout_fault proc of
                   Some e \<Rightarrow> (Inl e, fx2)
                 | None \<Rightarrow>
                     if returncode proc \<noteq> 0
                     then (Inr [], fx2 @ [Print (Snscrape_error (stderr proc))])
                     else (case sort_by_date_reverse tweets of
                             Inl e \<Rightarrow> (Inl e, fx2)
                           | Inr sorted_tweets \<Rightarrow> (Inr (take 200 sorted_tweets), fx2))))"

text \<open>
  \<open>run_snscrape\<close> with its two handlers. The result is again a sum, so that an exception
  which no handler catches would show as \<open>Inl\<close>; every class of \<open>py_exception\<close> derives
  from \<^verbatim>\<open>Exception\<close>, which the second handler catches.
\<close>

definition run_snscrape :: "world \<Rightarrow> effect list \<Rightarrow> (py_exception + json list) \<times> effect list" where
  "run_snscrape w fx =
     (let fx0 = fx @ [Print (Scraping_tweets_from_list (LIST_SPEC w))]
      in case run_snscrape_try w fx0 of
           (Inr tweets, fx1) \<Rightarrow> (Inr tweets, fx1)
         | (Inl e, fx1) \<Rightarrow>
             if isinstance_FileNotFoundError e then (Inr [], fx1 @ [Print Snscrape_not_found])
             else (Inr [], fx1 @ [Print (Error_running_snscrape e)]))"

section \<open>The deliverer\<close>

text \<open>
  \<^verbatim>\<open>response.raise_for_status()\<close> of the \<^verbatim>\<open>requests\<close> library raises \<^verbatim>\<open>HTTPError\<close> for a
  status code from 400 to 599 and returns for every other one.
\<close>

definition raise_for_status :: "response \<Rightarrow> py_exception + unit" where
  "raise_for_status r =
     (if 400 \<le> status_code r \<and> status_code r < 600 then Inl HTTPError else Inr ())"

text \<open>
  The body of the \<^verbatim>\<open>try\<close> of \<open>push_tweets\<close> (lines 79 to 99). The URL and the token are
  known to be set when it runs.
\<close>

definition ingest_request :: "world \<Rightarrow> json list \<Rightarrow> request" where
  "ingest_request w tweets =
     (let hdrs = [(''X-INGEST-TOKEN'', the (INGEST_TOKEN w)),
                  (''Content-Type'', ''application/json'')];
          payload = JObj [(''tweets'', JArr tweets)]
      in \<lparr>url = the (INGEST_URL w), headers = hdrs, data = payload, timeout = 60\<rparr>)"

definition push_tweets_try :: "world \<Rightarrow> json list \<Rightarrow> effect list \<Rightarrow> (py_exception + bool) \<times> effect list" where
  "push_tweets_try w tweets fx =
     (let fx1 = fx @ [Print (Pushing_tweets (length tweets) (the (INGEST_URL w)))];
          req = ingest_request w tweets;
          fx2 = fx1 @ [HttpPost req]
      in case requests_post w req of
           Inl e \<Rightarrow> (Inl e, fx2)
         | Inr resp \<Rightarrow>
             (case and_then (raise_for_status resp) (\<lambda>_. json_body resp) of
                Inl e \<Rightarrow> (Inl e, fx2)
              | Inr result \<Rightarrow>
                  (case py_get result ''inserted'' (JInt 0) of
                     Inl e \<Rightarrow> (Inl e, fx2)
                   | Inr n \<Rightarrow> (Inr True, fx2 @ [Print (Success_inserted n)]))))"

definition push_tweets :: "world \<Rightarrow> json list \<Rightarrow> effect list \<Rightarrow> (py_exception + bool) \<times> effect list" where
  "push_tweets w tweets fx =
     (if py_not (INGEST_URL w) \<or> py_not (INGEST_TOKEN w)
      then (Inr False, fx @ [Print Env_variables_must_be_set])
      else case push_tweets_try w tweets fx of
             (Inr ok, fx1) \<Rightarrow> (Inr ok, fx1)
           | (Inl e, fx1) \<Rightarrow>
               if isinstance_RequestException e
               then (Inr False, fx1 @ [Print (Error_pushing_tweets e)])
               else (Inr False, fx1 @ [Print (Unexpected_error e)]))"

section \<open>The orchestration\<close>

text \<open>
  \<open>main\<close> gives the exit status of the run: the argument of \<^verbatim>\<open>sys.exit\<close>, or 0 when it
  returns. An exception that left the collector or the deliverer would end the run with
  the interpreter's status 1.
\<close>

definition main :: "world \<Rightarrow> effect list \<Rightarrow> int \<times> effect list" where
  "main w fx =
     (let fx0 = fx @ [Print Starting_tweet_scraping]
      in if py_not (INGEST_URL w) then (1, fx0 @ [Print INGEST_URL_not_set])
         else if py_not (INGEST_TOKEN w) then (1, fx0 @ [Print INGEST_TOKEN_not_set])
         else case run_snscrape w fx0 of
                (Inl e, fx1) \<Rightarrow> (1, fx1)
              | (Inr tweets, fx1) \<Rightarrow>
                  if tweets = [] then (0, fx1 @ [Print No_tweets_scraped])
                  else (case push_tweets w tweets (fx1 @ [Print (Scraped_tweets (length tweets))]) of
                          (Inl e, fx2) \<Rightarrow> (1, fx2)
                        | (Inr success, fx2) \<Rightarrow>
                            if success then (0, fx2 @ [Print Completed_successfully])
                            else (1, fx2 @ [Print Tweet_ingestion_failed])))"

text \<open>What a trace says about the outside: the processes started and the requests sent.\<close>

fun spawns :: "effect list \<Rightarrow> string list list" where
  "spawns [] = []"
| "spawns (Spawn cmd # fx) = cmd # spawns fx"
| "spawns (_ # fx) = spawns fx"

fun posts :: "effect list \<Rightarrow> request list" where
  "posts [] = []"
| "posts (HttpPost r # fx) = r # posts fx"
| "posts (_ # fx) = posts fx"

section \<open>Notions used to state the properties\<close>





text \<open>
  The records that the loop collects from a list of lines, and what it prints meanwhile.
\<close>

definition collected :: "world \<Rightarrow> string list \<Rightarrow> json list" where
  "collected w ls = fst (read_lines w ls [] [])"

definition reported :: "world \<Rightarrow> string list \<Rightarrow> effect list" where
  "reported w ls = snd (read_lines w ls [] [])"


text \<open>
  \<open>delivery_fails w req\<close>: the request raises (a timeout, a transport failure), or the
  response has a status from 400 to 599, or its body is not a JSON object.
\<close>

definition delivery_fails :: "world \<Rightarrow> request \<Rightarrow> bool" where
  "delivery_fails w req =
     (case requests_post w req of
        Inl e \<Rightarrow> True
      | Inr resp \<Rightarrow>
          (400 \<le> status_code resp \<and> status_code resp < 600)
          \<or> (case json_body resp of Inr (JObj kvs) \<Rightarrow> False | _ \<Rightarrow> True))"


section \<open>Example runs\<close>

text \<open>
  A small world to run the module in: a \<^verbatim>\<open>strip\<close> for ASCII white space, a decoder that
  knows five lines of output, a process that prints given lines and exits with a given
  status, and an endpoint with a given answer. Both credentials are set.
\<close>

definition example_strip :: "string \<Rightarrow> string" where
  "example_strip s =
     (let sp = (\<lambda>c. c = CHR '' '' \<or> c = CHR 0x09 \<or> c = CHR 0x0A \<or> c = CHR 0x0D)
      in rev (dropWhile sp (rev (dropWhile sp s))))"

definition example_loads :: "string \<Rightarrow> py_exception + json" where
  \<open>example_loads s =
     (if s = ''{"id":"1","date":"2024-01-01","url":"u1","user":{"displayname":"Ann","username":"ann"}}''
      then Inr (JObj [(''id'', JStr ''1''), (''date'', JStr ''2024-01-01''), (''url'', JStr ''u1''),
                      (''user'', JObj [(''displayname'', JStr ''Ann''), (''username'', JStr ''ann'')])])
      else if s = ''{"id":"2","date":"2024-01-03"}''
      then Inr (JObj [(''id'', JStr ''2''), (''date'', JStr ''2024-01-03'')])
      else if s = ''{"id":"3","date":"2024-01-02","user":null}''
      then Inr (JObj [(''id'', JStr ''3''), (''date'', JStr ''2024-01-02''), (''user'', JNull)])
      else if s = ''{}'' then Inr (JObj [])
      else if s = ''[1]'' then Inr (JArr [JInt 1])
      else Inl JSONDecodeError)\<close>

definition example_process :: "string list \<Rightarrow> int \<Rightarrow> process" where
  "example_process ls rc = \<lparr>stdout = ls, stdout_fault = None, returncode = rc, stderr = ''failed''\<rparr>"

definition example_world :: "string list \<Rightarrow> int \<Rightarrow> py_exception + response \<Rightarrow> world" where
  "example_world ls rc resp =
     \<lparr>environ = [''INGEST_URL'' \<mapsto> ''https://example.org/api/ingest'', ''INGEST_TOKEN'' \<mapsto> ''secret''],
      strip = example_strip, json_loads = example_loads,
      popen = (\<lambda>cmd. Inr (example_process ls rc)),
      requests_post = (\<lambda>req. resp)\<rparr>"

definition line_1 :: string where
  \<open>line_1 = ''{"id":"1","date":"2024-01-01","url":"u1","user":{"displayname":"Ann","username":"ann"}}'' @ [CHR 0x0A]\<close>

definition line_2 :: string where
  \<open>line_2 = ''{"id":"2","date":"2024-01-03"}'' @ [CHR 0x0A]\<close>


definition line_4 :: string where
  \<open>line_4 = ''{}'' @ [CHR 0x0A]\<close>

text \<open>The records that the first, the second and the fourth line give.\<close>

definition tweet_1 :: json where
  "tweet_1 = JObj [(''id'', JStr ''1''), (''date'', JStr ''2024-01-01''), (''content'', JNull),
     (''url'', JStr ''u1''), (''authorName'', JStr ''Ann''), (''authorHandle'', JStr ''ann''),
     (''raw'', JObj [(''id'', JStr ''1''), (''date'', JStr ''2024-01-01''), (''url'', JStr ''u1''),
                      (''user'', JObj [(''displayname'', JStr ''Ann''), (''username'', JStr ''ann'')])])]"

definition tweet_2 :: json where
  "tweet_2 = JObj [(''id'', JStr ''2''), (''date'', JStr ''2024-01-03''), (''content'', JNull),
     (''url'', JNull), (''authorName'', JNull), (''authorHandle'', JNull),
     (''raw'', JObj [(''id'', JStr ''2''), (''date'', JStr ''2024-01-03'')])]"

definition tweet_4 :: json where
  "tweet_4 = JObj [(''id'', JNull), (''date'', JNull), (''content'', JNull),
     (''url'', JNull), (''authorName'', JNull), (''authorHandle'', JNull), (''raw'', JObj [])]"

section \<open>Traces\<close>

lemma spawns_append: "spawns (xs @ ys) = spawns xs @ spawns ys"
  by (induction xs rule: spawns.induct) simp_all

lemma posts_append: "posts (xs @ ys) = posts xs @ posts ys"
  by (induction xs rule: posts.induct) simp_all

section \<open>The loop over the lines\<close>

lemma read_lines_acc:
  "read_lines w ls tweets fx =
     (tweets @ fst (read_lines w ls [] []), fx @ snd (read_lines w ls [] []))"
proof (induction ls arbitrary: tweets fx)
  case Nil
  show ?case by simp
next
  case (Cons l ls)
  show ?case
  proof (cases "and_then (json_loads w (strip w l)) make_tweet")
    case (Inl e)
    then show ?thesis
      using Cons.IH [of tweets fx] Cons.IH [of tweets "fx @ [Print (Error_processing_tweet e)]"]
        Cons.IH [of "[]" "[Print (Error_processing_tweet e)]"]
      by simp
  next
    case (Inr t)
    then show ?thesis
      using Cons.IH [of "tweets @ [t]" fx] Cons.IH [of "[t]" "[]"] by simp
  qed
qed

lemma read_lines_eq:
  "read_lines w ls tweets fx = (tweets @ collected w ls, fx @ reported w ls)"
  unfolding collected_def reported_def by (rule read_lines_acc)

lemma collected_Nil: "collected w [] = []"
  by (simp add: collected_def)

lemma reported_Nil: "reported w [] = []"
  by (simp add: reported_def)

lemma collected_Cons:
  "collected w (l # ls) =
     (case and_then (json_loads w (strip w l)) make_tweet of
        Inr t \<Rightarrow> t # collected w ls | Inl e \<Rightarrow> collected w ls)"
proof (cases "and_then (json_loads w (strip w l)) make_tweet")
  case (Inl e)
  then show ?thesis
    using read_lines_acc [of w ls "[]" "[Print (Error_processing_tweet e)]"]
    by (simp add: collected_def)
next
  case (Inr t)
  then show ?thesis
    using read_lines_acc [of w ls "[t]" "[]"] by (simp add: collected_def)
qed

lemma reported_Cons:
  "reported w (l # ls) =
     (case and_then (json_loads w (strip w l)) make_tweet of
        Inr t \<Rightarrow> reported w ls
      | Inl e \<Rightarrow> if isinstance_JSONDecodeError e then reported w ls
                 else Print (Error_processing_tweet e) # reported w ls)"
proof (cases "and_then (json_loads w (strip w l)) make_tweet")
  case (Inl e)
  then show ?thesis
    using read_lines_acc [of w ls "[]" "[Print (Error_processing_tweet e)]"]
    by (simp add: reported_def)
next
  case (Inr t)
  then show ?thesis
    using read_lines_acc [of w ls "[t]" "[]"] by (simp add: reported_def)
qed



lemma reported_spawns: "spawns (reported w ls) = []"
  by (induction ls) (simp_all add: reported_Nil reported_Cons split: sum.splits)

lemma reported_posts: "posts (reported w ls) = []"
  by (induction ls) (simp_all add: reported_Nil reported_Cons split: sum.splits)

lemma collected_from_line:
  "t \<in> set (collected w ls) \<Longrightarrow>
     \<exists>l\<in>set ls. and_then (json_loads w (strip w l)) make_tweet = Inr t"
  by (induction ls) (auto simp: collected_Nil collected_Cons split: sum.splits)

section \<open>The shape of a record\<close>

lemma make_tweet_shape:
  "make_tweet d = Inr t \<Longrightarrow>
     \<exists>kvs name handle. d = JObj kvs
       \<and> and_then (py_get d ''user'' (JObj [])) (\<lambda>u. py_get u ''displayname'' JNull) = Inr name
       \<and> and_then (py_get d ''user'' (JObj [])) (\<lambda>u. py_get u ''username'' JNull) = Inr handle
       \<and> t = JObj [(''id'', dict_get kvs ''id'' JNull), (''date'', dict_get kvs ''date'' JNull),
                   (''content'', dict_get kvs ''content'' JNull), (''url'', dict_get kvs ''url'' JNull),
                   (''authorName'', name), (''authorHandle'', handle), (''raw'', d)]"
  by (cases d) (auto simp: make_tweet_def and_then_def split: sum.splits)

lemma and_then_Inr: "and_then r f = Inr v \<Longrightarrow> \<exists>d. r = Inr d \<and> f d = Inr v"
  by (cases r) (simp_all add: and_then_def)



section \<open>The result of the collector\<close>

lemma run_snscrape_try_eq:
  "run_snscrape_try w fx =
     (case popen w (snscrape_cmd w) of
        Inl e \<Rightarrow> (Inl e, fx @ [Spawn (snscrape_cmd w)])
      | Inr p \<Rightarrow>
          (case stdout_fault p of
             Some e \<Rightarrow> (Inl e, fx @ [Spawn (snscrape_cmd w)] @ reported w (stdout p))
           | None \<Rightarrow>
               if returncode p \<noteq> 0
               then (Inr [], fx @ [Spawn (snscrape_cmd w)] @ reported w (stdout p)
                               @ [Print (Snscrape_error (stderr p))])
               else (case sort_by_date_reverse (collected w (stdout p)) of
                       Inl e \<Rightarrow> (Inl e, fx @ [Spawn (snscrape_cmd w)] @ reported w (stdout p))
                     | Inr ys \<Rightarrow> (Inr (take 200 ys),
                                  fx @ [Spawn (snscrape_cmd w)] @ reported w (stdout p)))))"
  by (simp add: run_snscrape_try_def Let_def read_lines_eq split: sum.splits option.splits)

lemma run_snscrape_fst:
  "fst (run_snscrape w fx) =
     Inr (case popen w (snscrape_cmd w) of
            Inl e \<Rightarrow> []
          | Inr p \<Rightarrow>
              (case stdout_fault p of
                 Some e \<Rightarrow> []
               | None \<Rightarrow>
                   if returncode p \<noteq> 0 then []
                   else (case sort_by_date_reverse (collected w (stdout p)) of
                           Inl e \<Rightarrow> [] | Inr ys \<Rightarrow> take 200 ys)))"
  by (simp add: run_snscrape_def run_snscrape_try_eq Let_def split: sum.splits option.splits)

section \<open>Comparison is an order where it is defined\<close>


lemma canon_JInt: "canon a = JInt i \<longleftrightarrow> num_of a = Some i"
  by (cases a) auto

lemma canon_JNull: "canon a = JNull \<longleftrightarrow> a = JNull"
  by (cases a) auto



lemma num_of_canon: "num_of a = Some i \<longleftrightarrow> canon a = JInt i"
  by (simp add: canon_JInt)



















section \<open>The order of the keys\<close>



lemma insert_desc_mset: "insert_desc x ys = Inr zs \<Longrightarrow> mset zs = add_mset x (mset ys)"
  by (induction ys arbitrary: zs) (auto split: sum.splits bool.splits if_splits)

lemma sort_desc_mset: "sort_desc xs = Inr ys \<Longrightarrow> mset ys = mset xs"
  by (induction xs arbitrary: ys) (auto split: sum.splits dest: insert_desc_mset)









section \<open>The keys of the collected records\<close>


lemma sort_keys_Inr:
  "sort_keys ts = Inr ks \<Longrightarrow>
     list_all2 (\<lambda>t kx. snd kx = t \<and> py_getitem t ''date'' = Inr (fst kx)) ts ks"
  by (induction ts arbitrary: ks) (auto split: sum.splits)

lemma sort_keys_snd: "sort_keys ts = Inr ks \<Longrightarrow> map snd ks = ts"
  by (induction ts arbitrary: ks) (auto split: sum.splits)


lemma sort_by_date_reverse_Inr:
  "sort_by_date_reverse ts = Inr ys \<Longrightarrow>
     \<exists>ks zs. sort_keys ts = Inr ks \<and> sort_desc ks = Inr zs \<and> ys = map snd zs"
  by (auto simp: sort_by_date_reverse_def and_then_def split: sum.splits)

lemma sort_by_date_reverse_mset:
  "sort_by_date_reverse ts = Inr ys \<Longrightarrow> mset ys = mset ts"
proof -
  assume "sort_by_date_reverse ts = Inr ys"
  then obtain ks zs where k: "sort_keys ts = Inr ks" and z: "sort_desc ks = Inr zs"
    and ys: "ys = map snd zs"
    using sort_by_date_reverse_Inr by blast
  have "mset ys = image_mset snd (mset zs)" using ys by simp
  also have "\<dots> = image_mset snd (mset ks)" using sort_desc_mset [OF z] by simp
  also have "\<dots> = mset (map snd ks)" by simp
  finally show ?thesis using sort_keys_snd [OF k] by simp
qed


section \<open>What the collector and the deliverer do to the outside\<close>

lemma run_snscrape_fst_any: "fst (run_snscrape w fx) = fst (run_snscrape w fx')"
  by (simp only: run_snscrape_fst)

lemma run_snscrape_posts: "posts (snd (run_snscrape w fx)) = posts fx"
  by (simp add: run_snscrape_def run_snscrape_try_eq Let_def posts_append reported_posts
      split: sum.splits option.splits)

lemma run_snscrape_spawns: "spawns (snd (run_snscrape w fx)) = spawns fx @ [snscrape_cmd w]"
  by (simp add: run_snscrape_def run_snscrape_try_eq Let_def spawns_append reported_spawns
      split: sum.splits option.splits)

lemma push_tweets_fst:
  "\<not> py_not (INGEST_URL w) \<Longrightarrow> \<not> py_not (INGEST_TOKEN w) \<Longrightarrow>
     fst (push_tweets w tweets fx) = Inr (\<not> delivery_fails w (ingest_request w tweets))"
  by (simp add: push_tweets_def push_tweets_try_def Let_def delivery_fails_def
      raise_for_status_def and_then_def split: sum.splits json.splits)

lemma push_tweets_posts:
  "\<not> py_not (INGEST_URL w) \<Longrightarrow> \<not> py_not (INGEST_TOKEN w) \<Longrightarrow>
     posts (snd (push_tweets w tweets fx)) = posts fx @ [ingest_request w tweets]"
  by (simp add: push_tweets_def push_tweets_try_def Let_def posts_append
      split: sum.splits prod.splits)

lemma push_tweets_success:
  "\<not> py_not (INGEST_URL w) \<Longrightarrow> \<not> py_not (INGEST_TOKEN w) \<Longrightarrow>
   requests_post w (ingest_request w tweets) = Inr resp \<Longrightarrow>
   \<not> (400 \<le> status_code resp \<and> status_code resp < 600) \<Longrightarrow> json_body resp = Inr (JObj kvs) \<Longrightarrow>
     push_tweets w tweets fx =
       (Inr True, fx @ [Print (Pushing_tweets (length tweets) (the (INGEST_URL w))),
                        HttpPost (ingest_request w tweets),
                        Print (Success_inserted (dict_get kvs ''inserted'' (JInt 0)))])"
  by (simp add: push_tweets_def push_tweets_try_def Let_def raise_for_status_def and_then_def)











section \<open>Claim C1\<close>



section \<open>Claim C2\<close>

text \<open>
  Claim C2. When the process exits with a status other than zero, the collector returns the
  empty list, whatever number of records the loop has collected from its output.
\<close>

theorem nonzero_exit_discards_records:
  "popen w (snscrape_cmd w) = Inr p \<Longrightarrow> returncode p \<noteq> 0 \<Longrightarrow> fst (run_snscrape w fx) = Inr []"
  by (simp add: run_snscrape_fst split: option.splits)

theorem nonzero_exit_discards_records_witness:
  "returncode (example_process [line_1, line_2] 1) \<noteq> 0
   \<and> collected (example_world [line_1, line_2] 1 (Inl Timeout)) [line_1, line_2] = [tweet_1, tweet_2]
   \<and> fst (run_snscrape (example_world [line_1, line_2] 1 (Inl Timeout)) []) = Inr []"
proof -
  let ?w = "example_world [line_1, line_2] 1 (Inl Timeout)"
  let ?p = "example_process [line_1, line_2] 1"
  have p: "popen ?w (snscrape_cmd ?w) = Inr ?p" by code_simp
  have n: "returncode ?p \<noteq> 0" by code_simp
  have c: "collected ?w [line_1, line_2] = [tweet_1, tweet_2]" by code_simp
  show ?thesis using nonzero_exit_discards_records [OF p n, of "[]"] n c by blast
qed

section \<open>Claim C3\<close>

text \<open>
  Claim C3, as the code has it. With both credentials set, \<open>push_tweets\<close> never raises:
  it returns a truth value. It returns failure when the request raises, when the status
  of the response is from 400 to 599, and when the body of the response is not a JSON
  object. For every other response, so for every response with a 2xx status whose body is
  a JSON object, it returns success and prints the \<open>inserted\<close> field of the body, or zero
  when the body has no such field.
\<close>

theorem delivery_outcome:
  assumes u: "\<not> py_not (INGEST_URL w)" and t: "\<not> py_not (INGEST_TOKEN w)"
  shows "fst (push_tweets w tweets fx) = Inr (\<not> delivery_fails w (ingest_request w tweets))
     \<and> (\<forall>e. requests_post w (ingest_request w tweets) = Inl e \<longrightarrow>
           fst (push_tweets w tweets fx) = Inr False)
     \<and> (\<forall>resp. requests_post w (ingest_request w tweets) = Inr resp
                \<and> 400 \<le> status_code resp \<and> status_code resp < 600 \<longrightarrow>
           fst (push_tweets w tweets fx) = Inr False)
     \<and> (\<forall>resp kvs. requests_post w (ingest_request w tweets) = Inr resp
                \<and> \<not> (400 \<le> status_code resp \<and> status_code resp < 600)
                \<and> json_body resp = Inr (JObj kvs) \<longrightarrow>
           push_tweets w tweets fx =
             (Inr True, fx @ [Print (Pushing_tweets (length tweets) (the (INGEST_URL w))),
                              HttpPost (ingest_request w tweets),
                              Print (Success_inserted (dict_get kvs ''inserted'' (JInt 0)))]))
     \<and> (\<forall>resp. requests_post w (ingest_request w tweets) = Inr resp
                \<and> (case json_body resp of Inr (JObj kvs) \<Rightarrow> False | _ \<Rightarrow> True) \<longrightarrow>
           fst (push_tweets w tweets fx) = Inr False)"
proof -
  have 1: "fst (push_tweets w tweets fx) = Inr (\<not> delivery_fails w (ingest_request w tweets))"
    using u t by (rule push_tweets_fst)
  have 2: "\<forall>e. requests_post w (ingest_request w tweets) = Inl e \<longrightarrow>
           fst (push_tweets w tweets fx) = Inr False"
    by (simp add: 1 delivery_fails_def)
  have 3: "\<forall>resp. requests_post w (ingest_request w tweets) = Inr resp
                \<and> 400 \<le> status_code resp \<and> status_code resp < 600 \<longrightarrow>
           fst (push_tweets w tweets fx) = Inr False"
    by (simp add: 1 delivery_fails_def)
  have 4: "\<forall>resp kvs. requests_post w (ingest_request w tweets) = Inr resp
                \<and> \<not> (400 \<le> status_code resp \<and> status_code resp < 600)
                \<and> json_body resp = Inr (JObj kvs) \<longrightarrow>
           push_tweets w tweets fx =
             (Inr True, fx @ [Print (Pushing_tweets (length tweets) (the (INGEST_URL w))),
                              HttpPost (ingest_request w tweets),
                              Print (Success_inserted (dict_get kvs ''inserted'' (JInt 0)))])"
    using push_tweets_success [OF u t] by blast
  have 5: "\<forall>resp. requests_post w (ingest_request w tweets) = Inr resp
                \<and> (case json_body resp of Inr (JObj kvs) \<Rightarrow> False | _ \<Rightarrow> True) \<longrightarrow>
           fst (push_tweets w tweets fx) = Inr False"
    by (simp add: 1 delivery_fails_def)
  show ?thesis using 1 2 3 4 5 by blast
qed

theorem delivery_outcome_witness:
  "push_tweets (example_world [] 0 (Inr \<lparr>status_code = 201, json_body = Inr (JObj [])\<rparr>)) [tweet_1] []
     = (Inr True, [Print (Pushing_tweets 1 ''https://example.org/api/ingest''),
                   HttpPost (ingest_request (example_world [] 0 (Inr \<lparr>status_code = 201, json_body = Inr (JObj [])\<rparr>)) [tweet_1]),
                   Print (Success_inserted (JInt 0))])
   \<and> fst (push_tweets (example_world [] 0 (Inr \<lparr>status_code = 500, json_body = Inr (JObj [])\<rparr>)) [tweet_1] [])
     = Inr False
   \<and> fst (push_tweets (example_world [] 0 (Inl Timeout)) [tweet_1] []) = Inr False"
proof -
  let ?a = "example_world [] 0 (Inr \<lparr>status_code = 201, json_body = Inr (JObj [])\<rparr>)"
  let ?b = "example_world [] 0 (Inr \<lparr>status_code = 500, json_body = Inr (JObj [])\<rparr>)"
  let ?c = "example_world [] 0 (Inl Timeout)"
  have ua: "\<not> py_not (INGEST_URL ?a)" and ta: "\<not> py_not (INGEST_TOKEN ?a)" by code_simp+
  have ub: "\<not> py_not (INGEST_URL ?b)" and tb: "\<not> py_not (INGEST_TOKEN ?b)" by code_simp+
  have uc: "\<not> py_not (INGEST_URL ?c)" and tc: "\<not> py_not (INGEST_TOKEN ?c)" by code_simp+
  have a: "requests_post ?a (ingest_request ?a [tweet_1]) = Inr \<lparr>status_code = 201, json_body = Inr (JObj [])\<rparr>
           \<and> \<not> (400 \<le> status_code \<lparr>status_code = 201, json_body = Inr (JObj [])\<rparr>
                \<and> status_code \<lparr>status_code = 201, json_body = Inr (JObj [])\<rparr> < 600)
           \<and> json_body \<lparr>status_code = 201, json_body = Inr (JObj [])\<rparr> = Inr (JObj [])"
    by (simp add: example_world_def)
  have b: "requests_post ?b (ingest_request ?b [tweet_1]) = Inr \<lparr>status_code = 500, json_body = Inr (JObj [])\<rparr>
           \<and> 400 \<le> status_code \<lparr>status_code = 500, json_body = Inr (JObj [])\<rparr>
           \<and> status_code \<lparr>status_code = 500, json_body = Inr (JObj [])\<rparr> < 600"
    by (simp add: example_world_def)
  have c: "requests_post ?c (ingest_request ?c [tweet_1]) = Inl Timeout"
    by (simp add: example_world_def)
  have v: "the (INGEST_URL ?a) = ''https://example.org/api/ingest''
           \<and> dict_get [] ''inserted'' (JInt 0) = JInt 0 \<and> length [tweet_1] = 1"
    by code_simp
  have 1: "push_tweets ?a [tweet_1] [] =
             (Inr True, [] @ [Print (Pushing_tweets (length [tweet_1]) (the (INGEST_URL ?a))),
                              HttpPost (ingest_request ?a [tweet_1]),
                              Print (Success_inserted (dict_get [] ''inserted'' (JInt 0)))])"
    using delivery_outcome [OF ua ta, of "[tweet_1]" "[]"] a by blast
  have 2: "fst (push_tweets ?b [tweet_1] []) = Inr False"
    using delivery_outcome [OF ub tb, of "[tweet_1]" "[]"] b by blast
  have 3: "fst (push_tweets ?c [tweet_1] []) = Inr False"
    using delivery_outcome [OF uc tc, of "[tweet_1]" "[]"] c by blast
  show ?thesis using 1 2 3 v by simp
qed

text \<open>
  The outcome does not depend on the status alone: a response with status 200 whose body
  is not JSON, or is a JSON list, is a failure, and a response with status 300 whose body
  is a JSON object is a success.
\<close>

theorem delivery_outcome_counterexample:
  "fst (push_tweets (example_world [] 0 (Inr \<lparr>status_code = 200, json_body = Inl RequestsJSONDecodeError\<rparr>)) [tweet_1] [])
     = Inr False
   \<and> fst (push_tweets (example_world [] 0 (Inr \<lparr>status_code = 200, json_body = Inr (JArr [])\<rparr>)) [tweet_1] [])
     = Inr False
   \<and> fst (push_tweets (example_world [] 0 (Inr \<lparr>status_code = 300, json_body = Inr (JObj [])\<rparr>)) [tweet_1] [])
     = Inr True"
  by code_simp

section \<open>Claim C4\<close>

text \<open>
  Claim C4, as the code has it. Every record that the collector returns comes from a line
  of the output that decodes to a JSON object, and is the dict with the seven keys \<open>id\<close>,
  \<open>date\<close>, \<open>content\<close>, \<open>url\<close>, \<open>authorName\<close>, \<open>authorHandle\<close> and \<open>raw\<close>, in this order.
  \<open>raw\<close> is the decoded object itself; \<open>id\<close>, \<open>date\<close>, \<open>content\<close> and \<open>url\<close> are its entries
  of these names, and \<^verbatim>\<open>None\<close> where it has none; \<open>authorName\<close> and \<open>authorHandle\<close> are read
  from its \<open>user\<close> entry, and are \<^verbatim>\<open>None\<close> when it has no such entry.
\<close>

theorem record_fields:
  assumes r: "fst (run_snscrape w fx) = Inr ts" and m: "t \<in> set ts"
  shows "\<exists>p line kvs name handle.
           popen w (snscrape_cmd w) = Inr p \<and> line \<in> set (stdout p)
         \<and> json_loads w (strip w line) = Inr (JObj kvs)
         \<and> (case map_of kvs ''user'' of
               None \<Rightarrow> name = JNull \<and> handle = JNull
             | Some u \<Rightarrow> py_get u ''displayname'' JNull = Inr name
                         \<and> py_get u ''username'' JNull = Inr handle)
         \<and> t = JObj [(''id'', dict_get kvs ''id'' JNull), (''date'', dict_get kvs ''date'' JNull),
                     (''content'', dict_get kvs ''content'' JNull),
                     (''url'', dict_get kvs ''url'' JNull),
                     (''authorName'', name), (''authorHandle'', handle), (''raw'', JObj kvs)]"
proof -
  from r m obtain p ys where p: "popen w (snscrape_cmd w) = Inr p"
    and ys: "sort_by_date_reverse (collected w (stdout p)) = Inr ys" and ts: "ts = take 200 ys"
    by (auto simp: run_snscrape_fst split: sum.splits option.splits if_splits)
  have "t \<in> set ys" using m ts by (auto dest: in_set_takeD)
  then have "t \<in> set (collected w (stdout p))"
    using sort_by_date_reverse_mset [OF ys] by (metis set_mset_mset)
  then obtain line where l: "line \<in> set (stdout p)"
    and a: "and_then (json_loads w (strip w line)) make_tweet = Inr t"
    using collected_from_line by blast
  from a have "\<exists>d. json_loads w (strip w line) = Inr d \<and> make_tweet d = Inr t"
    by (rule and_then_Inr)
  then obtain d where d: "json_loads w (strip w line) = Inr d" "make_tweet d = Inr t" by auto
  from make_tweet_shape [OF d(2)] obtain kvs name handle where k: "d = JObj kvs"
    and n: "and_then (py_get d ''user'' (JObj [])) (\<lambda>u. py_get u ''displayname'' JNull) = Inr name"
    and h: "and_then (py_get d ''user'' (JObj [])) (\<lambda>u. py_get u ''username'' JNull) = Inr handle"
    and t: "t = JObj [(''id'', dict_get kvs ''id'' JNull), (''date'', dict_get kvs ''date'' JNull),
                   (''content'', dict_get kvs ''content'' JNull), (''url'', dict_get kvs ''url'' JNull),
                   (''authorName'', name), (''authorHandle'', handle), (''raw'', d)]"
    by blast
  have "case map_of kvs ''user'' of
               None \<Rightarrow> name = JNull \<and> handle = JNull
             | Some u \<Rightarrow> py_get u ''displayname'' JNull = Inr name
                         \<and> py_get u ''username'' JNull = Inr handle"
    using n h k by (auto simp: and_then_def dict_get_def split: option.splits)
  then show ?thesis using p l d(1) k t by blast
qed

theorem record_fields_witness:
  "fst (run_snscrape (example_world [line_1] 0 (Inl Timeout)) []) = Inr [tweet_1]
   \<and> (\<exists>p line kvs name handle.
           popen (example_world [line_1] 0 (Inl Timeout)) (snscrape_cmd (example_world [line_1] 0 (Inl Timeout))) = Inr p
         \<and> line \<in> set (stdout p)
         \<and> json_loads (example_world [line_1] 0 (Inl Timeout)) (strip (example_world [line_1] 0 (Inl Timeout)) line) = Inr (JObj kvs)
         \<and> (case map_of kvs ''user'' of
               None \<Rightarrow> name = JNull \<and> handle = JNull
             | Some u \<Rightarrow> py_get u ''displayname'' JNull = Inr name
                         \<and> py_get u ''username'' JNull = Inr handle)
         \<and> tweet_1 = JObj [(''id'', dict_get kvs ''id'' JNull), (''date'', dict_get kvs ''date'' JNull),
                     (''content'', dict_get kvs ''content'' JNull),
                     (''url'', dict_get kvs ''url'' JNull),
                     (''authorName'', name), (''authorHandle'', handle), (''raw'', JObj kvs)])"
proof -
  let ?w = "example_world [line_1] 0 (Inl Timeout)"
  have r: "fst (run_snscrape ?w []) = Inr [tweet_1]" by code_simp
  have m: "tweet_1 \<in> set [tweet_1]" by simp
  show ?thesis using record_fields [OF r m] r by blast
qed

text \<open>
  A record need not carry an identifier or a link: the line \<^verbatim>\<open>{}\<close> gives a record whose
  \<open>id\<close> and \<open>url\<close> are \<^verbatim>\<open>None\<close>.
\<close>

theorem record_fields_counterexample:
  "fst (run_snscrape (example_world [line_4] 0 (Inl Timeout)) []) = Inr [tweet_4]
   \<and> py_getitem tweet_4 ''id'' = Inr JNull \<and> py_getitem tweet_4 ''url'' = Inr JNull"
  by code_simp

section \<open>Claim C5\<close>



section \<open>Claim C6\<close>

text \<open>
  Claim C6. When the ingest URL or the token is unset (or empty), \<open>main\<close> ends the run with
  exit status 1 after printing which of the two is missing. It starts no process and sends
  no request.
\<close>

theorem missing_credentials_stop_the_run:
  "py_not (INGEST_URL w) \<or> py_not (INGEST_TOKEN w) \<Longrightarrow>
     main w fx = (1, fx @ [Print Starting_tweet_scraping,
                           Print (if py_not (INGEST_URL w) then INGEST_URL_not_set
                                  else INGEST_TOKEN_not_set)])
     \<and> spawns (snd (main w fx)) = spawns fx \<and> posts (snd (main w fx)) = posts fx"
  by (auto simp: main_def spawns_append posts_append)

theorem missing_credentials_stop_the_run_witness:
  "py_not (INGEST_TOKEN (example_world [line_1] 0 (Inl Timeout)
      \<lparr>environ := [''INGEST_URL'' \<mapsto> ''https://example.org/api/ingest'']\<rparr>))
   \<and> main (example_world [line_1] 0 (Inl Timeout)
      \<lparr>environ := [''INGEST_URL'' \<mapsto> ''https://example.org/api/ingest'']\<rparr>) []
       = (1, [Print Starting_tweet_scraping, Print INGEST_TOKEN_not_set])
   \<and> spawns (snd (main (example_world [line_1] 0 (Inl Timeout)
      \<lparr>environ := [''INGEST_URL'' \<mapsto> ''https://example.org/api/ingest'']\<rparr>) [])) = []"
proof -
  let ?w = "example_world [line_1] 0 (Inl Timeout)
      \<lparr>environ := [''INGEST_URL'' \<mapsto> ''https://example.org/api/ingest'']\<rparr>"
  have t: "py_not (INGEST_TOKEN ?w)" by code_simp
  have u: "\<not> py_not (INGEST_URL ?w)" by code_simp
  have "py_not (INGEST_URL ?w) \<or> py_not (INGEST_TOKEN ?w)" using t by simp
  from missing_credentials_stop_the_run [OF this, of "[]"] show ?thesis using t u by simp
qed

section \<open>Claim C7\<close>

text \<open>
  Claim C7, as the code has it. Both credentials are set and the collector returns a list
  that is not empty. When the delivery fails (the request raises, as for a timeout or a
  transport failure, or the status of the response is from 400 to 599, or its body is not
  a JSON object), the run ends with exit status 1, and it has sent exactly one request.
\<close>

theorem failed_delivery_fails_the_run:
  assumes u: "\<not> py_not (INGEST_URL w)" and t: "\<not> py_not (INGEST_TOKEN w)"
    and c: "fst (run_snscrape w fx0) = Inr ts" "ts \<noteq> []"
    and f: "delivery_fails w (ingest_request w ts)"
  shows "fst (main w fx) = 1 \<and> posts (snd (main w fx)) = posts fx @ [ingest_request w ts]"
proof -
  let ?fx0 = "fx @ [Print Starting_tweet_scraping]"
  obtain fx1 where r: "run_snscrape w ?fx0 = (Inr ts, fx1)"
    using c(1) run_snscrape_fst_any [of w ?fx0 fx0] by (cases "run_snscrape w ?fx0") simp
  have p1: "posts fx1 = posts fx"
    using run_snscrape_posts [of w ?fx0] r by (simp add: posts_append)
  let ?fx2 = "fx1 @ [Print (Scraped_tweets (length ts))]"
  obtain fx3 where d: "push_tweets w ts ?fx2 = (Inr False, fx3)"
    using push_tweets_fst [OF u t, of ts ?fx2] f by (cases "push_tweets w ts ?fx2") simp
  have p3: "posts fx3 = posts fx @ [ingest_request w ts]"
    using push_tweets_posts [OF u t, of ts ?fx2] d p1 by (simp add: posts_append)
  have "main w fx = (1, fx3 @ [Print Tweet_ingestion_failed])"
    using u t r c(2) d by (simp add: main_def Let_def)
  then show ?thesis using p3 by (simp add: posts_append)
qed

theorem failed_delivery_fails_the_run_witness:
  "fst (run_snscrape (example_world [line_1] 0 (Inl Timeout)) []) = Inr [tweet_1]
   \<and> delivery_fails (example_world [line_1] 0 (Inl Timeout))
        (ingest_request (example_world [line_1] 0 (Inl Timeout)) [tweet_1])
   \<and> fst (main (example_world [line_1] 0 (Inl Timeout)) []) = 1
   \<and> posts (snd (main (example_world [line_1] 0 (Inl Timeout)) []))
       = [ingest_request (example_world [line_1] 0 (Inl Timeout)) [tweet_1]]"
proof -
  let ?w = "example_world [line_1] 0 (Inl Timeout)"
  have u: "\<not> py_not (INGEST_URL ?w)" and t: "\<not> py_not (INGEST_TOKEN ?w)" by code_simp+
  have c: "fst (run_snscrape ?w []) = Inr [tweet_1]" by code_simp
  have n: "[tweet_1] \<noteq> []" by simp
  have f: "delivery_fails ?w (ingest_request ?w [tweet_1])"
    by (simp add: delivery_fails_def example_world_def)
  show ?thesis using failed_delivery_fails_the_run [OF u t c n f, of "[]"] c f by simp
qed

text \<open>
  A response whose status is not 2xx does not always fail the run: with status 300 and a
  JSON object as body the run ends with exit status 0.
\<close>

theorem failed_delivery_fails_the_run_counterexample:
  "fst (run_snscrape (example_world [line_1] 0 (Inr \<lparr>status_code = 300, json_body = Inr (JObj [])\<rparr>)) [])
     = Inr [tweet_1]
   \<and> requests_post (example_world [line_1] 0 (Inr \<lparr>status_code = 300, json_body = Inr (JObj [])\<rparr>))
        (ingest_request (example_world [line_1] 0 (Inr \<lparr>status_code = 300, json_body = Inr (JObj [])\<rparr>)) [tweet_1])
     = Inr \<lparr>status_code = 300, json_body = Inr (JObj [])\<rparr>
   \<and> fst (main (example_world [line_1] 0 (Inr \<lparr>status_code = 300, json_body = Inr (JObj [])\<rparr>)) []) = 0"
  by code_simp

section \<open>Claim C8\<close>



section \<open>Claim C9\<close>

text \<open>
  Claim C9. With both credentials set, \<open>push_tweets\<close> called with the empty list sends
  exactly one request, and its body binds \<open>tweets\<close> to the empty list.
\<close>

theorem empty_batch_is_posted_once:
  "\<not> py_not (INGEST_URL w) \<Longrightarrow> \<not> py_not (INGEST_TOKEN w) \<Longrightarrow>
     posts (snd (push_tweets w [] fx)) = posts fx @ [ingest_request w []]
     \<and> data (ingest_request w []) = JObj [(''tweets'', JArr [])]"
  by (simp add: push_tweets_posts) (simp add: ingest_request_def)

theorem empty_batch_is_posted_once_witness:
  "posts (snd (push_tweets (example_world [] 0 (Inr \<lparr>status_code = 200, json_body = Inr (JObj [(''inserted'', JInt 0)])\<rparr>)) [] []))
     = [\<lparr>url = ''https://example.org/api/ingest'',
         headers = [(''X-INGEST-TOKEN'', ''secret''), (''Content-Type'', ''application/json'')],
         data = JObj [(''tweets'', JArr [])], timeout = 60\<rparr>]"
proof -
  let ?w = "example_world [] 0 (Inr \<lparr>status_code = 200, json_body = Inr (JObj [(''inserted'', JInt 0)])\<rparr>)"
  have u: "\<not> py_not (INGEST_URL ?w)" by code_simp
  have t: "\<not> py_not (INGEST_TOKEN ?w)" by code_simp
  have r: "ingest_request ?w [] = \<lparr>url = ''https://example.org/api/ingest'',
         headers = [(''X-INGEST-TOKEN'', ''secret''), (''Content-Type'', ''application/json'')],
         data = JObj [(''tweets'', JArr [])], timeout = 60\<rparr>"
    by code_simp
  show ?thesis using empty_batch_is_posted_once [OF u t, of "[]"] r by simp
qed

section \<open>Claim C10\<close>



end
